theory Spec2Isabelle
  imports Main
begin

section \<open>The booking action of \<^verbatim>\<open>src/actions/bookings.js\<close>\<close>

text \<open>
  The file exports one async function, \<^verbatim>\<open>createBooking\<close>, which calls three services in
  sequence: the database (\<^verbatim>\<open>db.event.findUnique\<close>, \<^verbatim>\<open>db.booking.create\<close>), the identity
  provider (\<^verbatim>\<open>clerk.users.getUserOauthAccessToken\<close>) and the calendar API
  (\<^verbatim>\<open>calendar.events.insert\<close>). Every \<^verbatim>\<open>await\<close> is sequential, so the embedding is a pure
  function of the answers of the services, returning the list of service calls made
  (in order, with the \<^verbatim>\<open>console.error\<close> of the outer handler) together with either the
  thrown exception (\<open>Inl\<close>) or the returned value (\<open>Inr\<close>).
\<close>

subsection \<open>JavaScript values\<close>

text \<open>
  The values the code tests with \<^verbatim>\<open>!token\<close> and \<^verbatim>\<open>===\<close>: enough of JavaScript's
  dynamic values to tell a missing token from a string, and a numeric error code from a
  string one.
\<close>

datatype jsval = JUndefined | JNull | JBool bool | JNum int | JStr string

fun truthy :: "jsval \<Rightarrow> bool" where
  "truthy JUndefined = False"
| "truthy JNull = False"
| "truthy (JBool b) = b"
| "truthy (JNum n) = (n \<noteq> 0)"
| "truthy (JStr s) = (s \<noteq> [])"

subsection \<open>Exceptions\<close>

text \<open>
  An exception thrown by a service is an error object with a \<^verbatim>\<open>code\<close> and a
  \<^verbatim>\<open>message\<close>. The identity provider's client reports the failures of its API in an
  \<^verbatim>\<open>errors\<close> array on the error object, each entry with a \<^verbatim>\<open>code\<close> and a
  \<^verbatim>\<open>message\<close> of its own; the array is empty for an error that has none. The code
  reads \<^verbatim>\<open>error.code\<close> and \<^verbatim>\<open>error.message\<close> only. The module's own exceptions are \<^verbatim>\<open>new OAuthError(message, code, clerkError)\<close>
  (lines 8-15; \<^verbatim>\<open>clerkError\<close> defaults to \<^verbatim>\<open>null\<close>) and \<^verbatim>\<open>new Error(message)\<close>. The class
  \<^verbatim>\<open>OAuthError\<close> is not exported, so no service throws one. The services (Prisma, Clerk,
  googleapis) reject with \<^verbatim>\<open>Error\<close> objects; a rejection with a value that has no
  properties (\<^verbatim>\<open>null\<close>, \<^verbatim>\<open>undefined\<close>) is outside the model.
\<close>

record api_error =
  ae_code :: string
  ae_message :: string

record js_error =
  err_code :: jsval
  err_message :: string
  err_errors :: "api_error list"

datatype exn =
    OAuthError string string "exn option"
  | Error string
  | Thrown js_error

fun exn_message :: "exn \<Rightarrow> string" where
  "exn_message (OAuthError message code clerkError) = message"
| "exn_message (Error message) = message"
| "exn_message (Thrown e) = err_message e"

fun exn_code :: "exn \<Rightarrow> jsval" where
  "exn_code (OAuthError message code clerkError) = JStr code"
| "exn_code (Error message) = JUndefined"
| "exn_code (Thrown e) = err_code e"

fun instanceof_OAuthError :: "exn \<Rightarrow> bool" where
  "instanceof_OAuthError (OAuthError message code clerkError) = True"
| "instanceof_OAuthError (Error message) = False"
| "instanceof_OAuthError (Thrown e) = False"

subsection \<open>Data\<close>

text \<open>The event row with its owner (\<^verbatim>\<open>include: { user: true }\<close>): the fields the code reads.\<close>

record user =
  user_clerkUserId :: string
  user_email :: string

record event =
  event_id :: string
  event_title :: string
  event_userId :: string
  event_user :: user

text \<open>The argument of \<^verbatim>\<open>createBooking\<close>.\<close>

record bookingData =
  bd_eventId :: string
  bd_name :: string
  bd_email :: string
  bd_startTime :: string
  bd_endTime :: string
  bd_additionalInfo :: string

text \<open>The answer of \<^verbatim>\<open>getUserOauthAccessToken\<close>: an object whose \<^verbatim>\<open>data\<close> is an array of
  entries, each with a \<^verbatim>\<open>token\<close>.\<close>

record oauth_access_token =
  oat_token :: jsval

record oauth_response =
  or_data :: "oauth_access_token list"

text \<open>The argument of \<^verbatim>\<open>calendar.events.insert\<close> (lines 79-92), with the access token the
  client was given (line 75), and the two fields read from its answer (lines 95-96).\<close>

record calendar_request =
  cr_access_token :: jsval
  cr_calendarId :: string
  cr_conferenceDataVersion :: nat
  cr_summary :: string
  cr_description :: string
  cr_start_dateTime :: string
  cr_end_dateTime :: string
  cr_attendees :: "string list"
  cr_requestId :: string

record calendar_response =
  resp_hangoutLink :: jsval
  resp_id :: jsval

text \<open>The parameter object and the result of \<^verbatim>\<open>createGoogleCalendarEvent\<close>.\<close>

record calendar_params =
  cp_token :: jsval
  cp_summary :: string
  cp_description :: string
  cp_startTime :: string
  cp_endTime :: string
  cp_attendees :: "string list"
  cp_eventId :: string

record google_event =
  ge_meetLink :: jsval
  ge_googleEventId :: jsval

text \<open>The \<^verbatim>\<open>data\<close> of \<^verbatim>\<open>db.booking.create\<close> (lines 166-176).\<close>

record booking_create_data =
  bc_eventId :: string
  bc_userId :: string
  bc_name :: string
  bc_email :: string
  bc_startTime :: string
  bc_endTime :: string
  bc_additionalInfo :: string
  bc_meetLink :: jsval
  bc_googleEventId :: jsval

text \<open>
  The object \<^verbatim>\<open>createBooking\<close> returns. A key the object literal does not have is
  \<open>None\<close>. The booking row the database answers with is not inspected by the code; its
  type is the parameter \<open>'b\<close>.
\<close>

record 'b booking_result =
  success :: bool
  error :: "string option"
  code :: "jsval option"
  requiresReauth :: "bool option"
  details :: "string option"
  booking :: "'b option"
  meetLink :: "jsval option"

subsection \<open>The services\<close>

text \<open>
  Each service is called at most once in a run, so its behaviour in a run is a function
  from the arguments of the call to its answer: a thrown error object or a value.
  \<^verbatim>\<open>Date.now()\<close> is the clock reading \<open>date_now\<close>.
\<close>

record 'b env =
  findUnique :: "string \<Rightarrow> js_error + event option"
  getUserOauthAccessToken :: "string \<Rightarrow> string \<Rightarrow> js_error + oauth_response"
  events_insert :: "calendar_request \<Rightarrow> js_error + calendar_response"
  booking_create :: "booking_create_data \<Rightarrow> js_error + 'b"
  date_now :: nat

datatype call =
    FindUnique string
  | GetUserOauthAccessToken string string
  | EventsInsert calendar_request
  | BookingCreate booking_create_data
  | ConsoleError exn

subsection \<open>Template literals\<close>

text \<open>The decimal digits of a number, as \<^verbatim>\<open>`${Date.now()}`\<close> writes them.\<close>

definition digit_char :: "nat \<Rightarrow> char" where
  "digit_char d = ''0123456789'' ! d"

fun string_of_nat :: "nat \<Rightarrow> string" where
  "string_of_nat n =
     (if n < 10 then [digit_char n]
      else string_of_nat (n div 10) @ [digit_char (n mod 10)])"

declare string_of_nat.simps [simp del]

subsection \<open>\<^verbatim>\<open>getGoogleOAuthToken\<close> (lines 22-57)\<close>

text \<open>
  The \<^verbatim>\<open>try\<close> block: the provider call, \<^verbatim>\<open>data[0]?.token\<close> (\<^verbatim>\<open>undefined\<close> on an empty
  array), and the \<^verbatim>\<open>throw\<close> of line 34 when the token is falsy.
\<close>

definition getGoogleOAuthToken_try :: "'b env \<Rightarrow> string \<Rightarrow> exn + jsval" where
  "getGoogleOAuthToken_try env clerkUserId =
     (case getUserOauthAccessToken env clerkUserId ''oauth_google'' of
        Inl e \<Rightarrow> Inl (Thrown e)
      | Inr resp \<Rightarrow>
          (let token = (case or_data resp of [] \<Rightarrow> JUndefined | t # ts \<Rightarrow> oat_token t)
           in if \<not> truthy token
              then Inl (OAuthError ''Google Calendar not connected'' ''NO_GOOGLE_CONNECTION'' None)
              else Inr token))"

text \<open>The \<^verbatim>\<open>catch\<close> block encloses the whole \<^verbatim>\<open>try\<close> block, the \<^verbatim>\<open>throw\<close> of line 34
  included.\<close>

definition getGoogleOAuthToken :: "'b env \<Rightarrow> string \<Rightarrow> call list \<times> (exn + jsval)" where
  "getGoogleOAuthToken env clerkUserId =
     ([GetUserOauthAccessToken clerkUserId ''oauth_google''],
      (case getGoogleOAuthToken_try env clerkUserId of
         Inr token \<Rightarrow> Inr token
       | Inl err \<Rightarrow>
           if exn_code err = JStr ''oauth_token_retrieval_error''
           then Inl (OAuthError ''Please reconnect your Google Calendar''
                       ''GOOGLE_AUTH_REQUIRED'' (Some err))
           else Inl (OAuthError ''Failed to access Google Calendar''
                       ''GOOGLE_AUTH_ERROR'' (Some err))))"

subsection \<open>\<^verbatim>\<open>createGoogleCalendarEvent\<close> (lines 64-107)\<close>

definition requestBody :: "'b env \<Rightarrow> calendar_params \<Rightarrow> calendar_request" where
  "requestBody env p =
     \<lparr> cr_access_token = cp_token p,
       cr_calendarId = ''primary'',
       cr_conferenceDataVersion = 1,
       cr_summary = cp_summary p,
       cr_description = cp_description p,
       cr_start_dateTime = cp_startTime p,
       cr_end_dateTime = cp_endTime p,
       cr_attendees = cp_attendees p,
       cr_requestId = cp_eventId p @ ''-'' @ string_of_nat (date_now env) \<rparr>"

definition createGoogleCalendarEvent_try :: "'b env \<Rightarrow> calendar_params \<Rightarrow> exn + google_event" where
  "createGoogleCalendarEvent_try env p =
     (case events_insert env (requestBody env p) of
        Inl e \<Rightarrow> Inl (Thrown e)
      | Inr response \<Rightarrow>
          Inr \<lparr> ge_meetLink = resp_hangoutLink response,
                ge_googleEventId = resp_id response \<rparr>)"

definition createGoogleCalendarEvent ::
    "'b env \<Rightarrow> calendar_params \<Rightarrow> call list \<times> (exn + google_event)" where
  "createGoogleCalendarEvent env p =
     ([EventsInsert (requestBody env p)],
      (case createGoogleCalendarEvent_try env p of
         Inr r \<Rightarrow> Inr r
       | Inl err \<Rightarrow>
           if exn_code err = JNum 401
           then Inl (OAuthError ''Google Calendar access expired'' ''GOOGLE_TOKEN_EXPIRED'' None)
           else Inl (Error ''Failed to create Google Calendar event'')))"

subsection \<open>\<^verbatim>\<open>createBooking\<close> (lines 109-194)\<close>

text \<open>The object literals of the \<^verbatim>\<open>return\<close> statements start from the object with only
  \<^verbatim>\<open>success\<close>.\<close>

definition result :: "bool \<Rightarrow> 'b booking_result" where
  "result s =
     \<lparr> success = s, error = None, code = None, requiresReauth = None,
       details = None, booking = None, meetLink = None \<rparr>"

definition calendarParams :: "bookingData \<Rightarrow> event \<Rightarrow> jsval \<Rightarrow> calendar_params" where
  "calendarParams bookingData event token =
     \<lparr> cp_token = token,
       cp_summary = bd_name bookingData @ '' - '' @ event_title event,
       cp_description = bd_additionalInfo bookingData,
       cp_startTime = bd_startTime bookingData,
       cp_endTime = bd_endTime bookingData,
       cp_attendees = [bd_email bookingData, user_email (event_user event)],
       cp_eventId = event_id event \<rparr>"

definition bookingCreateData :: "bookingData \<Rightarrow> event \<Rightarrow> google_event \<Rightarrow> booking_create_data" where
  "bookingCreateData bookingData event googleEvent =
     \<lparr> bc_eventId = event_id event,
       bc_userId = event_userId event,
       bc_name = bd_name bookingData,
       bc_email = bd_email bookingData,
       bc_startTime = bd_startTime bookingData,
       bc_endTime = bd_endTime bookingData,
       bc_additionalInfo = bd_additionalInfo bookingData,
       bc_meetLink = ge_meetLink googleEvent,
       bc_googleEventId = ge_googleEventId googleEvent \<rparr>"

text \<open>Step 4 (lines 165-183): the insert and the successful return.\<close>

definition persist ::
    "'b env \<Rightarrow> bookingData \<Rightarrow> event \<Rightarrow> google_event \<Rightarrow> call list \<times> (exn + 'b booking_result)" where
  "persist env bookingData event googleEvent =
     ([BookingCreate (bookingCreateData bookingData event googleEvent)],
      (case booking_create env (bookingCreateData bookingData event googleEvent) of
         Inl e \<Rightarrow> Inl (Thrown e)
       | Inr b \<Rightarrow>
           Inr ((result True)\<lparr> booking := Some b,
                               meetLink := Some (ge_meetLink googleEvent) \<rparr>)))"

text \<open>Step 3 (lines 138-162), then step 4.\<close>

definition createCalendarEvent_then ::
    "'b env \<Rightarrow> bookingData \<Rightarrow> event \<Rightarrow> jsval \<Rightarrow> call list \<times> (exn + 'b booking_result)" where
  "createCalendarEvent_then env bookingData event token =
     (case createGoogleCalendarEvent env (calendarParams bookingData event token) of
        (cs, Inl calendarError) \<Rightarrow>
          if instanceof_OAuthError calendarError
          then (cs, Inr ((result False)\<lparr>
                  error := Some ''Failed to create calendar event. Please reconnect Google Calendar.'',
                  code := Some (exn_code calendarError),
                  requiresReauth := Some True \<rparr>))
          else (cs, Inl calendarError)
      | (cs, Inr googleEvent) \<Rightarrow>
          (case persist env bookingData event googleEvent of
             (cs', r) \<Rightarrow> (cs @ cs', r)))"

text \<open>Step 2 (lines 125-135), then the rest.\<close>

definition getToken_then ::
    "'b env \<Rightarrow> bookingData \<Rightarrow> event \<Rightarrow> call list \<times> (exn + 'b booking_result)" where
  "getToken_then env bookingData event =
     (case getGoogleOAuthToken env (user_clerkUserId (event_user event)) of
        (cs, Inl oauthError) \<Rightarrow>
          (cs, Inr ((result False)\<lparr>
                  error := Some (exn_message oauthError),
                  code := Some (exn_code oauthError),
                  requiresReauth := Some (exn_code oauthError = JStr ''GOOGLE_AUTH_REQUIRED'') \<rparr>))
      | (cs, Inr token) \<Rightarrow>
          (case createCalendarEvent_then env bookingData event token of
             (cs', r) \<Rightarrow> (cs @ cs', r)))"

text \<open>The body of the outer \<^verbatim>\<open>try\<close> (lines 111-183).\<close>

definition createBooking_try ::
    "'b env \<Rightarrow> bookingData \<Rightarrow> call list \<times> (exn + 'b booking_result)" where
  "createBooking_try env bookingData =
     (case findUnique env (bd_eventId bookingData) of
        Inl e \<Rightarrow> ([FindUnique (bd_eventId bookingData)], Inl (Thrown e))
      | Inr None \<Rightarrow>
          ([FindUnique (bd_eventId bookingData)],
           Inr ((result False)\<lparr> error := Some ''Event not found'' \<rparr>))
      | Inr (Some event) \<Rightarrow>
          (case getToken_then env bookingData event of
             (cs, r) \<Rightarrow> (FindUnique (bd_eventId bookingData) # cs, r)))"

text \<open>The outer \<^verbatim>\<open>catch\<close> (lines 185-193) logs the exception and returns an object.\<close>

definition createBooking ::
    "'b env \<Rightarrow> bookingData \<Rightarrow> call list \<times> (exn + 'b booking_result)" where
  "createBooking env bookingData =
     (case createBooking_try env bookingData of
        (cs, Inr r) \<Rightarrow> (cs, Inr r)
      | (cs, Inl err) \<Rightarrow>
          (cs @ [ConsoleError err],
           Inr ((result False)\<lparr>
                  error := Some ''Failed to create booking'',
                  details := Some (exn_message err) \<rparr>)))"

subsection \<open>Concrete runs\<close>

text \<open>
  One request and one stored event, with services that all succeed; the other
  environments change the answer of one service. The database answers an insert with
  the new row: an identifier and the fields it was given.
\<close>

definition owner1 :: user where
  "owner1 = \<lparr> user_clerkUserId = ''user_1'', user_email = ''owner@example.com'' \<rparr>"

definition event1 :: event where
  "event1 = \<lparr> event_id = ''E1'', event_title = ''Intro call'', event_userId = ''U1'',
               event_user = owner1 \<rparr>"

definition request1 :: bookingData where
  "request1 = \<lparr> bd_eventId = ''E1'', bd_name = ''Ada'', bd_email = ''ada@example.com'',
                 bd_startTime = ''2025-01-01T10:00:00Z'', bd_endTime = ''2025-01-01T10:30:00Z'',
                 bd_additionalInfo = ''hello'' \<rparr>"

definition request2 :: bookingData where
  "request2 = request1\<lparr> bd_eventId := ''E2'' \<rparr>"

definition env_ok :: "(string \<times> booking_create_data) env" where
  "env_ok =
     \<lparr> findUnique = (\<lambda>i. if i = ''E1'' then Inr (Some event1) else Inr None),
       getUserOauthAccessToken = (\<lambda>u p. Inr \<lparr> or_data = [\<lparr> oat_token = JStr ''ya29.token'' \<rparr>] \<rparr>),
       events_insert = (\<lambda>r. Inr \<lparr> resp_hangoutLink = JStr ''https://meet/x'',
                                  resp_id = JStr ''G1'' \<rparr>),
       booking_create = (\<lambda>d. Inr (''B1'', d)),
       date_now = 1700000000000 \<rparr>"

definition env_no_token :: "(string \<times> booking_create_data) env" where
  "env_no_token = env_ok\<lparr> getUserOauthAccessToken := (\<lambda>u p. Inr \<lparr> or_data = [] \<rparr>) \<rparr>"

definition clerk_token_retrieval_error :: js_error where
  "clerk_token_retrieval_error =
     \<lparr> err_code = JStr ''api_response_error'',
       err_message = ''Bad Request'',
       err_errors = [\<lparr> ae_code = ''oauth_token_retrieval_error'',
                       ae_message = ''Token retrieval failed'' \<rparr>] \<rparr>"

definition env_token_retrieval_error :: "(string \<times> booking_create_data) env" where
  "env_token_retrieval_error =
     env_ok\<lparr> getUserOauthAccessToken := (\<lambda>u p. Inl clerk_token_retrieval_error) \<rparr>"

definition env_provider_down :: "(string \<times> booking_create_data) env" where
  "env_provider_down =
     env_ok\<lparr> getUserOauthAccessToken :=
       (\<lambda>u p. Inl \<lparr> err_code = JStr ''ECONNRESET'', err_message = ''socket hang up'',
                                   err_errors = [] \<rparr>) \<rparr>"

definition env_calendar_401 :: "(string \<times> booking_create_data) env" where
  "env_calendar_401 =
     env_ok\<lparr> events_insert :=
       (\<lambda>r. Inl \<lparr> err_code = JNum 401, err_message = ''Invalid Credentials'',
                                 err_errors = [] \<rparr>) \<rparr>"

definition env_insert_fails :: "(string \<times> booking_create_data) env" where
  "env_insert_fails =
     env_ok\<lparr> booking_create :=
       (\<lambda>d. Inl \<lparr> err_code = JStr ''P2002'', err_message = ''Unique constraint failed'',
                                 err_errors = [] \<rparr>) \<rparr>"

section \<open>Properties\<close>

subsection \<open>The two inner functions\<close>

lemma getGoogleOAuthToken_pair:
  "getGoogleOAuthToken env u =
     ([GetUserOauthAccessToken u ''oauth_google''], snd (getGoogleOAuthToken env u))"
  by (simp add: getGoogleOAuthToken_def)

lemma createGoogleCalendarEvent_pair:
  "createGoogleCalendarEvent env p =
     ([EventsInsert (requestBody env p)], snd (createGoogleCalendarEvent env p))"
  by (simp add: createGoogleCalendarEvent_def)

lemma getGoogleOAuthToken_retrieval_error:
  assumes "getUserOauthAccessToken env u ''oauth_google'' = Inl e"
    and "err_code e = JStr ''oauth_token_retrieval_error''"
  shows "snd (getGoogleOAuthToken env u) =
     Inl (OAuthError ''Please reconnect your Google Calendar'' ''GOOGLE_AUTH_REQUIRED''
            (Some (Thrown e)))"
  using assms by (simp add: getGoogleOAuthToken_def getGoogleOAuthToken_try_def)

lemma getGoogleOAuthToken_other_error:
  assumes "getUserOauthAccessToken env u ''oauth_google'' = Inl e"
    and "err_code e \<noteq> JStr ''oauth_token_retrieval_error''"
  shows "snd (getGoogleOAuthToken env u) =
     Inl (OAuthError ''Failed to access Google Calendar'' ''GOOGLE_AUTH_ERROR''
            (Some (Thrown e)))"
  using assms by (simp add: getGoogleOAuthToken_def getGoogleOAuthToken_try_def)

lemma getGoogleOAuthToken_no_token:
  assumes "getUserOauthAccessToken env u ''oauth_google'' = Inr resp"
    and "\<not> truthy (case or_data resp of [] \<Rightarrow> JUndefined | t # ts \<Rightarrow> oat_token t)"
  shows "snd (getGoogleOAuthToken env u) =
     Inl (OAuthError ''Failed to access Google Calendar'' ''GOOGLE_AUTH_ERROR''
            (Some (OAuthError ''Google Calendar not connected'' ''NO_GOOGLE_CONNECTION'' None)))"
  using assms by (simp add: getGoogleOAuthToken_def getGoogleOAuthToken_try_def)

lemma getGoogleOAuthToken_token:
  assumes "getUserOauthAccessToken env u ''oauth_google'' = Inr resp"
    and "or_data resp = t # ts" and "truthy (oat_token t)"
  shows "snd (getGoogleOAuthToken env u) = Inr (oat_token t)"
  using assms by (simp add: getGoogleOAuthToken_def getGoogleOAuthToken_try_def)

lemma createGoogleCalendarEvent_401:
  assumes "events_insert env (requestBody env p) = Inl e" and "err_code e = JNum 401"
  shows "snd (createGoogleCalendarEvent env p) =
     Inl (OAuthError ''Google Calendar access expired'' ''GOOGLE_TOKEN_EXPIRED'' None)"
  using assms by (simp add: createGoogleCalendarEvent_def createGoogleCalendarEvent_try_def)

lemma createGoogleCalendarEvent_other:
  assumes "events_insert env (requestBody env p) = Inl e" and "err_code e \<noteq> JNum 401"
  shows "snd (createGoogleCalendarEvent env p) =
     Inl (Error ''Failed to create Google Calendar event'')"
  using assms by (simp add: createGoogleCalendarEvent_def createGoogleCalendarEvent_try_def)

lemma createGoogleCalendarEvent_Inr:
  "snd (createGoogleCalendarEvent env p) = Inr ge \<longleftrightarrow>
     (\<exists>response. events_insert env (requestBody env p) = Inr response \<and>
        ge = \<lparr> ge_meetLink = resp_hangoutLink response, ge_googleEventId = resp_id response \<rparr>)"
  by (auto simp add: createGoogleCalendarEvent_def createGoogleCalendarEvent_try_def
      split: sum.splits)

lemma createGoogleCalendarEvent_answered:
  assumes "events_insert env (requestBody env p) = Inr response"
  shows "snd (createGoogleCalendarEvent env p) =
     Inr \<lparr> ge_meetLink = resp_hangoutLink response, ge_googleEventId = resp_id response \<rparr>"
  using assms by (simp add: createGoogleCalendarEvent_Inr)

lemma getGoogleOAuthToken_Inr:
  "snd (getGoogleOAuthToken env u) = Inr token \<longleftrightarrow>
     (\<exists>resp t ts. getUserOauthAccessToken env u ''oauth_google'' = Inr resp \<and>
        or_data resp = t # ts \<and> truthy (oat_token t) \<and> token = oat_token t)"
  by (auto simp add: getGoogleOAuthToken_def getGoogleOAuthToken_try_def Let_def
      split: sum.splits list.splits if_splits)

lemma getGoogleOAuthToken_Inl:
  assumes "snd (getGoogleOAuthToken env u) = Inl oe"
    and "getUserOauthAccessToken env u ''oauth_google'' = Inr resp"
    and "or_data resp = t # ts"
  shows "\<not> truthy (oat_token t)"
  using assms
  by (auto simp add: getGoogleOAuthToken_def getGoogleOAuthToken_try_def Let_def
      split: if_splits)

subsection \<open>The paths of \<^verbatim>\<open>createBooking\<close>\<close>

lemma createBooking_lookup_throws:
  assumes "findUnique env (bd_eventId bd) = Inl e"
  shows "createBooking env bd =
     ([FindUnique (bd_eventId bd), ConsoleError (Thrown e)],
      Inr ((result False)\<lparr> error := Some ''Failed to create booking'',
                             details := Some (err_message e) \<rparr>))"
  using assms by (simp add: createBooking_def createBooking_try_def)

lemma createBooking_not_found:
  assumes "findUnique env (bd_eventId bd) = Inr None"
  shows "createBooking env bd =
     ([FindUnique (bd_eventId bd)], Inr ((result False)\<lparr> error := Some ''Event not found'' \<rparr>))"
  using assms by (simp add: createBooking_def createBooking_try_def)

lemma createBooking_token_fails:
  assumes "findUnique env (bd_eventId bd) = Inr (Some event)"
    and "snd (getGoogleOAuthToken env (user_clerkUserId (event_user event))) = Inl oe"
  shows "createBooking env bd =
     ([FindUnique (bd_eventId bd),
       GetUserOauthAccessToken (user_clerkUserId (event_user event)) ''oauth_google''],
      Inr ((result False)\<lparr> error := Some (exn_message oe), code := Some (exn_code oe),
              requiresReauth := Some (exn_code oe = JStr ''GOOGLE_AUTH_REQUIRED'') \<rparr>))"
  using assms getGoogleOAuthToken_pair [of env "user_clerkUserId (event_user event)"]
  by (simp add: createBooking_def createBooking_try_def getToken_then_def)

lemma createBooking_calendar_oauth:
  assumes "findUnique env (bd_eventId bd) = Inr (Some event)"
    and "snd (getGoogleOAuthToken env (user_clerkUserId (event_user event))) = Inr token"
    and "snd (createGoogleCalendarEvent env (calendarParams bd event token)) = Inl ce"
    and "instanceof_OAuthError ce"
  shows "createBooking env bd =
     ([FindUnique (bd_eventId bd),
       GetUserOauthAccessToken (user_clerkUserId (event_user event)) ''oauth_google'',
       EventsInsert (requestBody env (calendarParams bd event token))],
      Inr ((result False)\<lparr>
        error := Some ''Failed to create calendar event. Please reconnect Google Calendar.'',
        code := Some (exn_code ce), requiresReauth := Some True \<rparr>))"
  using assms getGoogleOAuthToken_pair [of env "user_clerkUserId (event_user event)"]
    createGoogleCalendarEvent_pair [of env "calendarParams bd event token"]
  by (simp add: createBooking_def createBooking_try_def getToken_then_def
      createCalendarEvent_then_def)

lemma createBooking_calendar_other:
  assumes "findUnique env (bd_eventId bd) = Inr (Some event)"
    and "snd (getGoogleOAuthToken env (user_clerkUserId (event_user event))) = Inr token"
    and "snd (createGoogleCalendarEvent env (calendarParams bd event token)) = Inl ce"
    and "\<not> instanceof_OAuthError ce"
  shows "createBooking env bd =
     ([FindUnique (bd_eventId bd),
       GetUserOauthAccessToken (user_clerkUserId (event_user event)) ''oauth_google'',
       EventsInsert (requestBody env (calendarParams bd event token)),
       ConsoleError ce],
      Inr ((result False)\<lparr> error := Some ''Failed to create booking'',
                             details := Some (exn_message ce) \<rparr>))"
  using assms getGoogleOAuthToken_pair [of env "user_clerkUserId (event_user event)"]
    createGoogleCalendarEvent_pair [of env "calendarParams bd event token"]
  by (simp add: createBooking_def createBooking_try_def getToken_then_def
      createCalendarEvent_then_def)

lemma createBooking_insert_throws:
  assumes "findUnique env (bd_eventId bd) = Inr (Some event)"
    and "snd (getGoogleOAuthToken env (user_clerkUserId (event_user event))) = Inr token"
    and "snd (createGoogleCalendarEvent env (calendarParams bd event token)) = Inr ge"
    and "booking_create env (bookingCreateData bd event ge) = Inl e"
  shows "createBooking env bd =
     ([FindUnique (bd_eventId bd),
       GetUserOauthAccessToken (user_clerkUserId (event_user event)) ''oauth_google'',
       EventsInsert (requestBody env (calendarParams bd event token)),
       BookingCreate (bookingCreateData bd event ge),
       ConsoleError (Thrown e)],
      Inr ((result False)\<lparr> error := Some ''Failed to create booking'',
                             details := Some (err_message e) \<rparr>))"
  using assms getGoogleOAuthToken_pair [of env "user_clerkUserId (event_user event)"]
    createGoogleCalendarEvent_pair [of env "calendarParams bd event token"]
  by (simp add: createBooking_def createBooking_try_def getToken_then_def
      createCalendarEvent_then_def persist_def)

lemma createBooking_all_succeed:
  assumes "findUnique env (bd_eventId bd) = Inr (Some event)"
    and "snd (getGoogleOAuthToken env (user_clerkUserId (event_user event))) = Inr token"
    and "snd (createGoogleCalendarEvent env (calendarParams bd event token)) = Inr ge"
    and "booking_create env (bookingCreateData bd event ge) = Inr b"
  shows "createBooking env bd =
     ([FindUnique (bd_eventId bd),
       GetUserOauthAccessToken (user_clerkUserId (event_user event)) ''oauth_google'',
       EventsInsert (requestBody env (calendarParams bd event token)),
       BookingCreate (bookingCreateData bd event ge)],
      Inr ((result True)\<lparr> booking := Some b, meetLink := Some (ge_meetLink ge) \<rparr>))"
  using assms getGoogleOAuthToken_pair [of env "user_clerkUserId (event_user event)"]
    createGoogleCalendarEvent_pair [of env "calendarParams bd event token"]
  by (simp add: createBooking_def createBooking_try_def getToken_then_def
      createCalendarEvent_then_def persist_def)

text \<open>Every run takes one of the seven paths.\<close>

lemma createBooking_cases [case_names lookup_throws not_found token_fails calendar_oauth
    calendar_other insert_throws all_succeed]:
  obtains e where "findUnique env (bd_eventId bd) = Inl e"
  | "findUnique env (bd_eventId bd) = Inr None"
  | event oe where "findUnique env (bd_eventId bd) = Inr (Some event)"
      and "snd (getGoogleOAuthToken env (user_clerkUserId (event_user event))) = Inl oe"
  | event token ce where "findUnique env (bd_eventId bd) = Inr (Some event)"
      and "snd (getGoogleOAuthToken env (user_clerkUserId (event_user event))) = Inr token"
      and "snd (createGoogleCalendarEvent env (calendarParams bd event token)) = Inl ce"
      and "instanceof_OAuthError ce"
  | event token ce where "findUnique env (bd_eventId bd) = Inr (Some event)"
      and "snd (getGoogleOAuthToken env (user_clerkUserId (event_user event))) = Inr token"
      and "snd (createGoogleCalendarEvent env (calendarParams bd event token)) = Inl ce"
      and "\<not> instanceof_OAuthError ce"
  | event token ge e where "findUnique env (bd_eventId bd) = Inr (Some event)"
      and "snd (getGoogleOAuthToken env (user_clerkUserId (event_user event))) = Inr token"
      and "snd (createGoogleCalendarEvent env (calendarParams bd event token)) = Inr ge"
      and "booking_create env (bookingCreateData bd event ge) = Inl e"
  | event token ge b where "findUnique env (bd_eventId bd) = Inr (Some event)"
      and "snd (getGoogleOAuthToken env (user_clerkUserId (event_user event))) = Inr token"
      and "snd (createGoogleCalendarEvent env (calendarParams bd event token)) = Inr ge"
      and "booking_create env (bookingCreateData bd event ge) = Inr b"
proof (cases "findUnique env (bd_eventId bd)")
  case (Inl e)
  then show thesis by (rule that(1))
next
  case (Inr found)
  show thesis
  proof (cases found)
    case None
    with Inr show thesis by (simp add: that(2))
  next
    case (Some event)
    with Inr have ev: "findUnique env (bd_eventId bd) = Inr (Some event)" by simp
    show thesis
    proof (cases "snd (getGoogleOAuthToken env (user_clerkUserId (event_user event)))")
      case (Inl oe)
      with ev show thesis by (rule that(3))
    next
      case tok: (Inr token)
      show thesis
      proof (cases "snd (createGoogleCalendarEvent env (calendarParams bd event token))")
        case (Inl ce)
        show thesis
        proof (cases "instanceof_OAuthError ce")
          case True
          with ev tok Inl show thesis by (rule that(4))
        next
          case False
          with ev tok Inl show thesis by (rule that(5))
        qed
      next
        case cal: (Inr ge)
        show thesis
        proof (cases "booking_create env (bookingCreateData bd event ge)")
          case (Inl e)
          with ev tok cal show thesis by (rule that(6))
        next
          case (Inr b)
          with ev tok cal show thesis by (rule that(7))
        qed
      qed
    qed
  qed
qed

text \<open>What a call in the list of calls says about the run.\<close>

lemma GetUserOauthAccessToken_called:
  assumes "GetUserOauthAccessToken u p \<in> set (fst (createBooking env bd))"
  obtains event where "findUnique env (bd_eventId bd) = Inr (Some event)"
    and "u = user_clerkUserId (event_user event)" and "p = ''oauth_google''"
  using assms
  by (cases env bd rule: createBooking_cases)
     (auto simp add: createBooking_lookup_throws createBooking_not_found
        createBooking_token_fails createBooking_calendar_oauth createBooking_calendar_other
        createBooking_insert_throws createBooking_all_succeed)

lemma EventsInsert_called:
  assumes "EventsInsert req \<in> set (fst (createBooking env bd))"
  obtains event token where "findUnique env (bd_eventId bd) = Inr (Some event)"
    and "snd (getGoogleOAuthToken env (user_clerkUserId (event_user event))) = Inr token"
    and "req = requestBody env (calendarParams bd event token)"
  using assms
  by (cases env bd rule: createBooking_cases)
     (auto simp add: createBooking_lookup_throws createBooking_not_found
        createBooking_token_fails createBooking_calendar_oauth createBooking_calendar_other
        createBooking_insert_throws createBooking_all_succeed)

lemma BookingCreate_called:
  assumes "BookingCreate d \<in> set (fst (createBooking env bd))"
  obtains event token ge where "findUnique env (bd_eventId bd) = Inr (Some event)"
    and "snd (getGoogleOAuthToken env (user_clerkUserId (event_user event))) = Inr token"
    and "snd (createGoogleCalendarEvent env (calendarParams bd event token)) = Inr ge"
    and "d = bookingCreateData bd event ge"
  using assms
  by (cases env bd rule: createBooking_cases)
     (auto simp add: createBooking_lookup_throws createBooking_not_found
        createBooking_token_fails createBooking_calendar_oauth createBooking_calendar_other
        createBooking_insert_throws createBooking_all_succeed)

subsection \<open>The concrete runs\<close>

lemma request1_ids:
  "bd_eventId request1 = ''E1''" "user_clerkUserId (event_user event1) = ''user_1''"
  by (simp_all add: request1_def event1_def owner1_def)

lemma env_ok_findUnique:
  "findUnique env_ok ''E1'' = Inr (Some event1)" "findUnique env_ok ''E2'' = Inr None"
  by (simp_all add: env_ok_def)

lemma env_ok_token:
  "snd (getGoogleOAuthToken env_ok u) = Inr (JStr ''ya29.token'')"
  by (simp add: getGoogleOAuthToken_def getGoogleOAuthToken_try_def env_ok_def)

lemma env_ok_events_insert:
  "events_insert env_ok req = Inr \<lparr> resp_hangoutLink = JStr ''https://meet/x'', resp_id = JStr ''G1'' \<rparr>"
  by (simp add: env_ok_def)

lemma env_ok_booking_create: "booking_create env_ok d = Inr (''B1'', d)"
  by (simp add: env_ok_def)

text \<open>The run of \<open>request1\<close> when every service succeeds.\<close>

lemma env_ok_calendar:
  "snd (createGoogleCalendarEvent env_ok p) =
     Inr \<lparr> ge_meetLink = JStr ''https://meet/x'', ge_googleEventId = JStr ''G1'' \<rparr>"
  by (simp add: createGoogleCalendarEvent_Inr env_ok_events_insert)

lemma env_ok_run:
  "createBooking env_ok request1 =
     ([FindUnique ''E1'', GetUserOauthAccessToken ''user_1'' ''oauth_google'',
       EventsInsert (requestBody env_ok (calendarParams request1 event1 (JStr ''ya29.token''))),
       BookingCreate (bookingCreateData request1 event1
         \<lparr> ge_meetLink = JStr ''https://meet/x'', ge_googleEventId = JStr ''G1'' \<rparr>)],
      Inr \<lparr> success = True, error = None, code = None, requiresReauth = None, details = None,
            booking = Some (''B1'', bookingCreateData request1 event1
              \<lparr> ge_meetLink = JStr ''https://meet/x'', ge_googleEventId = JStr ''G1'' \<rparr>),
            meetLink = Some (JStr ''https://meet/x'') \<rparr>)"
proof -
  have ev: "findUnique env_ok (bd_eventId request1) = Inr (Some event1)"
    by (simp add: request1_ids env_ok_findUnique)
  from createBooking_all_succeed [OF ev env_ok_token env_ok_calendar env_ok_booking_create]
  show ?thesis
    by (simp add: request1_ids result_def)
qed

text \<open>
  The conference request identifier of line 89 in the run of \<open>request1\<close>: the event's id,
  a hyphen and the clock reading in decimal.
\<close>

lemma env_ok_requestId:
  "cr_requestId (requestBody env_ok (calendarParams request1 event1 token)) =
     ''E1-1700000000000''"
proof -
  have "string_of_nat 1700000000000 = ''1700000000000''"
    by (simp add: string_of_nat.simps digit_char_def)
  then show ?thesis
    by (simp add: requestBody_def calendarParams_def env_ok_def event1_def)
qed

text \<open>The run of \<open>request1\<close> when the calendar API rejects the token.\<close>

lemma env_calendar_401_token:
  "snd (getGoogleOAuthToken env_calendar_401 u) = Inr (JStr ''ya29.token'')"
  by (simp add: getGoogleOAuthToken_def getGoogleOAuthToken_try_def env_calendar_401_def
      env_ok_def)

lemma env_calendar_401_events_insert:
  "events_insert env_calendar_401 req =
     Inl \<lparr> err_code = JNum 401, err_message = ''Invalid Credentials'',
                  err_errors = [] \<rparr>"
  by (simp add: env_calendar_401_def)

lemma env_calendar_401_run:
  "createBooking env_calendar_401 request1 =
     ([FindUnique ''E1'', GetUserOauthAccessToken ''user_1'' ''oauth_google'',
       EventsInsert (requestBody env_calendar_401
                       (calendarParams request1 event1 (JStr ''ya29.token'')))],
      Inr \<lparr> success = False,
            error = Some ''Failed to create calendar event. Please reconnect Google Calendar.'',
            code = Some (JStr ''GOOGLE_TOKEN_EXPIRED''), requiresReauth = Some True,
            details = None, booking = None, meetLink = None \<rparr>)"
proof -
  have ev: "findUnique env_calendar_401 (bd_eventId request1) = Inr (Some event1)"
    by (simp add: env_calendar_401_def request1_ids env_ok_findUnique)
  have cal: "snd (createGoogleCalendarEvent env_calendar_401
               (calendarParams request1 event1 (JStr ''ya29.token''))) =
             Inl (OAuthError ''Google Calendar access expired'' ''GOOGLE_TOKEN_EXPIRED'' None)"
    by (rule createGoogleCalendarEvent_401 [OF env_calendar_401_events_insert]) simp
  from createBooking_calendar_oauth [OF ev env_calendar_401_token cal] show ?thesis
    by (simp add: request1_ids result_def)
qed

text \<open>The run of \<open>request1\<close> when the insert throws.\<close>

lemma env_insert_fails_try:
  "createBooking_try env_insert_fails request1 =
     ([FindUnique ''E1'', GetUserOauthAccessToken ''user_1'' ''oauth_google'',
       EventsInsert (requestBody env_insert_fails
                       (calendarParams request1 event1 (JStr ''ya29.token''))),
       BookingCreate (bookingCreateData request1 event1
         \<lparr> ge_meetLink = JStr ''https://meet/x'', ge_googleEventId = JStr ''G1'' \<rparr>)],
      Inl (Thrown \<lparr> err_code = JStr ''P2002'', err_message = ''Unique constraint failed'',
                           err_errors = [] \<rparr>))"
proof -
  have ev: "findUnique env_insert_fails ''E1'' = Inr (Some event1)"
    by (simp add: env_insert_fails_def env_ok_findUnique)
  have tok: "getGoogleOAuthToken env_insert_fails ''user_1'' =
      ([GetUserOauthAccessToken ''user_1'' ''oauth_google''], Inr (JStr ''ya29.token''))"
    by (simp add: getGoogleOAuthToken_def getGoogleOAuthToken_try_def env_insert_fails_def
        env_ok_def)
  have cal: "createGoogleCalendarEvent env_insert_fails p =
      ([EventsInsert (requestBody env_insert_fails p)],
       Inr \<lparr> ge_meetLink = JStr ''https://meet/x'', ge_googleEventId = JStr ''G1'' \<rparr>)" for p
    by (simp add: createGoogleCalendarEvent_def createGoogleCalendarEvent_try_def
        env_insert_fails_def env_ok_def)
  have ins: "booking_create env_insert_fails d =
      Inl \<lparr> err_code = JStr ''P2002'', err_message = ''Unique constraint failed'',
                   err_errors = [] \<rparr>" for d
    by (simp add: env_insert_fails_def)
  show ?thesis
    by (simp add: createBooking_try_def getToken_then_def createCalendarEvent_then_def
        persist_def request1_ids ev tok cal ins)
qed

subsection \<open>Claims\<close>

text \<open>
  A provider answer without a usable token: the \<^verbatim>\<open>throw\<close> of line 34 is inside the
  \<^verbatim>\<open>try\<close> block, so the \<^verbatim>\<open>catch\<close> of line 41 receives it and, its code not being
  \<^verbatim>\<open>oauth_token_retrieval_error\<close>, wraps it into the exception of lines 51-55.
\<close>

lemma createBooking_no_token:
  assumes "findUnique env (bd_eventId bookingData) = Inr (Some event)"
    and "getUserOauthAccessToken env (user_clerkUserId (event_user event)) ''oauth_google'' = Inr resp"
    and "\<not> truthy (case or_data resp of [] \<Rightarrow> JUndefined | t # ts \<Rightarrow> oat_token t)"
  shows "createBooking env bookingData =
     ([FindUnique (bd_eventId bookingData),
       GetUserOauthAccessToken (user_clerkUserId (event_user event)) ''oauth_google''],
      Inr \<lparr> success = False, error = Some ''Failed to access Google Calendar'',
            code = Some (JStr ''GOOGLE_AUTH_ERROR''), requiresReauth = Some False,
            details = None, booking = None, meetLink = None \<rparr>)"
  using createBooking_token_fails [OF assms(1) getGoogleOAuthToken_no_token [OF assms(2,3)]]
  by (simp add: result_def)

text \<open>
  C1. The claim: when the event exists and the provider returns no token for its owner,
  the result has code \<^verbatim>\<open>NO_GOOGLE_CONNECTION\<close> and \<^verbatim>\<open>requiresReauth:false\<close>, and neither
  the calendar nor the insert is called. The code at the run where the provider answers
  with an empty \<^verbatim>\<open>data\<close> array: no calendar call, no insert, \<^verbatim>\<open>requiresReauth:false\<close>,
  but the code is \<^verbatim>\<open>GOOGLE_AUTH_ERROR\<close> and the message that of lines 51-55.
\<close>

theorem C1_no_token_run:
  "findUnique env_no_token (bd_eventId request1) = Inr (Some event1) \<and>
   getUserOauthAccessToken env_no_token (user_clerkUserId (event_user event1)) ''oauth_google'' =
     Inr \<lparr> or_data = [] \<rparr> \<and>
   createBooking env_no_token request1 =
     ([FindUnique ''E1'', GetUserOauthAccessToken ''user_1'' ''oauth_google''],
      Inr \<lparr> success = False, error = Some ''Failed to access Google Calendar'',
            code = Some (JStr ''GOOGLE_AUTH_ERROR''), requiresReauth = Some False,
            details = None, booking = None, meetLink = None \<rparr>)"
proof -
  have ev: "findUnique env_no_token (bd_eventId request1) = Inr (Some event1)"
    by (simp add: env_no_token_def request1_ids env_ok_findUnique)
  have tok: "getUserOauthAccessToken env_no_token (user_clerkUserId (event_user event1))
      ''oauth_google'' = Inr \<lparr> or_data = [] \<rparr>"
    by (simp add: env_no_token_def)
  have "\<not> truthy (case or_data \<lparr> or_data = [] \<rparr> of [] \<Rightarrow> JUndefined | t # ts \<Rightarrow> oat_token t)"
    by simp
  from createBooking_no_token [OF ev tok this] ev tok show ?thesis
    by (simp add: request1_ids)
qed

text \<open>
  C2 as stated fails: in the run of \<open>request1\<close> with \<open>env_calendar_401\<close> the calendar
  call throws an error with code 401, and the \<^verbatim>\<open>error\<close> of the result is the literal of
  line 156, not the message \<^verbatim>\<open>"Google Calendar access expired"\<close> of the exception
  (lines 100-103), of which the handler of lines 153-159 keeps the code only.
\<close>

theorem C2_message_counterexample:
  "EventsInsert (requestBody env_calendar_401 (calendarParams request1 event1 (JStr ''ya29.token'')))
     \<in> set (fst (createBooking env_calendar_401 request1)) \<and>
   events_insert env_calendar_401
       (requestBody env_calendar_401 (calendarParams request1 event1 (JStr ''ya29.token''))) =
     Inl \<lparr> err_code = JNum 401, err_message = ''Invalid Credentials'',
                  err_errors = [] \<rparr> \<and>
   snd (createBooking env_calendar_401 request1) =
     Inr \<lparr> success = False,
           error = Some ''Failed to create calendar event. Please reconnect Google Calendar.'',
           code = Some (JStr ''GOOGLE_TOKEN_EXPIRED''), requiresReauth = Some True,
           details = None, booking = None, meetLink = None \<rparr> \<and>
   snd (createBooking env_calendar_401 request1) \<noteq>
     Inr \<lparr> success = False, error = Some ''Google Calendar access expired'',
           code = Some (JStr ''GOOGLE_TOKEN_EXPIRED''), requiresReauth = Some True,
           details = None, booking = None, meetLink = None \<rparr>"
  by (simp add: env_calendar_401_run env_calendar_401_events_insert)

text \<open>
  C2, amended. In every run that calls the calendar API and gets an error with code 401
  from it, \<^verbatim>\<open>createBooking\<close> returns
  \<^verbatim>\<open>{success:false, error:"Failed to create calendar event. Please reconnect Google Calendar.",
  code:"GOOGLE_TOKEN_EXPIRED", requiresReauth:true}\<close>, and the insert is not called.
\<close>

theorem C2_calendar_401:
  assumes "EventsInsert req \<in> set (fst (createBooking env bookingData))"
    and "events_insert env req = Inl e"
    and "err_code e = JNum 401"
  shows "snd (createBooking env bookingData) =
     Inr \<lparr> success = False,
           error = Some ''Failed to create calendar event. Please reconnect Google Calendar.'',
           code = Some (JStr ''GOOGLE_TOKEN_EXPIRED''), requiresReauth = Some True,
           details = None, booking = None, meetLink = None \<rparr> \<and>
     (\<forall>d. BookingCreate d \<notin> set (fst (createBooking env bookingData)))"
proof -
  from assms(1) obtain event token
    where ev: "findUnique env (bd_eventId bookingData) = Inr (Some event)"
      and tok: "snd (getGoogleOAuthToken env (user_clerkUserId (event_user event))) = Inr token"
      and req: "req = requestBody env (calendarParams bookingData event token)"
    by (rule EventsInsert_called)
  from assms(2,3) req
  have "snd (createGoogleCalendarEvent env (calendarParams bookingData event token)) =
          Inl (OAuthError ''Google Calendar access expired'' ''GOOGLE_TOKEN_EXPIRED'' None)"
    by (simp add: createGoogleCalendarEvent_401)
  from createBooking_calendar_oauth [OF ev tok this] show ?thesis
    by (simp add: result_def)
qed

theorem C2_calendar_401_witness:
  "EventsInsert (requestBody env_calendar_401 (calendarParams request1 event1 (JStr ''ya29.token'')))
     \<in> set (fst (createBooking env_calendar_401 request1)) \<and>
   events_insert env_calendar_401
       (requestBody env_calendar_401 (calendarParams request1 event1 (JStr ''ya29.token''))) =
     Inl \<lparr> err_code = JNum 401, err_message = ''Invalid Credentials'',
                  err_errors = [] \<rparr> \<and>
   snd (createBooking env_calendar_401 request1) =
     Inr \<lparr> success = False,
           error = Some ''Failed to create calendar event. Please reconnect Google Calendar.'',
           code = Some (JStr ''GOOGLE_TOKEN_EXPIRED''), requiresReauth = Some True,
           details = None, booking = None, meetLink = None \<rparr> \<and>
   (\<forall>d. BookingCreate d \<notin> set (fst (createBooking env_calendar_401 request1)))"
proof -
  let ?req = "requestBody env_calendar_401 (calendarParams request1 event1 (JStr ''ya29.token''))"
  let ?e = "\<lparr> err_code = JNum 401, err_message = ''Invalid Credentials'',
                     err_errors = [] \<rparr>"
  have called: "EventsInsert ?req \<in> set (fst (createBooking env_calendar_401 request1))"
    by (simp add: env_calendar_401_run)
  have thrown: "events_insert env_calendar_401 ?req = Inl ?e"
    by (rule env_calendar_401_events_insert)
  have "err_code ?e = JNum 401"
    by simp
  from C2_calendar_401 [OF called thrown this] called thrown show ?thesis
    by blast
qed

text \<open>
  C3. When the event lookup answers that no event has the request's \<^verbatim>\<open>eventId\<close>,
  \<^verbatim>\<open>createBooking\<close> returns exactly \<^verbatim>\<open>{success:false, error:"Event not found"}\<close>, and
  the lookup is the only service call of the run: no token, calendar or insert call.
\<close>

theorem C3_event_not_found:
  assumes "findUnique env (bd_eventId bookingData) = Inr None"
  shows "createBooking env bookingData =
     ([FindUnique (bd_eventId bookingData)],
      Inr \<lparr> success = False, error = Some ''Event not found'', code = None,
            requiresReauth = None, details = None, booking = None, meetLink = None \<rparr>)"
  using createBooking_not_found [OF assms] by (simp add: result_def)

theorem C3_event_not_found_witness:
  "findUnique env_ok (bd_eventId request2) = Inr None \<and>
   createBooking env_ok request2 =
     ([FindUnique ''E2''],
      Inr \<lparr> success = False, error = Some ''Event not found'', code = None,
            requiresReauth = None, details = None, booking = None, meetLink = None \<rparr>)"
proof -
  have missing: "findUnique env_ok (bd_eventId request2) = Inr None"
    by (simp add: request2_def env_ok_def)
  have "bd_eventId request2 = ''E2''"
    by (simp add: request2_def)
  with C3_event_not_found [OF missing] missing show ?thesis
    by simp
qed

text \<open>
  The branch of lines 42-49 is taken exactly when the \<^verbatim>\<open>code\<close> property of the caught
  error object itself is \<^verbatim>\<open>oauth_token_retrieval_error\<close>.
\<close>

lemma createBooking_top_level_retrieval_code:
  assumes "findUnique env (bd_eventId bookingData) = Inr (Some event)"
    and "getUserOauthAccessToken env (user_clerkUserId (event_user event)) ''oauth_google'' = Inl e"
    and "err_code e = JStr ''oauth_token_retrieval_error''"
  shows "createBooking env bookingData =
     ([FindUnique (bd_eventId bookingData),
       GetUserOauthAccessToken (user_clerkUserId (event_user event)) ''oauth_google''],
      Inr \<lparr> success = False, error = Some ''Please reconnect your Google Calendar'',
            code = Some (JStr ''GOOGLE_AUTH_REQUIRED''), requiresReauth = Some True,
            details = None, booking = None, meetLink = None \<rparr>)"
  using createBooking_token_fails [OF assms(1) getGoogleOAuthToken_retrieval_error [OF assms(2,3)]]
  by (simp add: result_def)

text \<open>
  The provider's client reports a token-retrieval failure in the \<^verbatim>\<open>errors\<close> array of the
  error object, whose own \<^verbatim>\<open>code\<close> is another string. Line 42 compares only
  \<^verbatim>\<open>error.code\<close>, so such an error falls through to lines 51-55, whatever its \<^verbatim>\<open>errors\<close>
  array holds.
\<close>

lemma createBooking_retrieval_code_in_errors:
  assumes "findUnique env (bd_eventId bookingData) = Inr (Some event)"
    and "getUserOauthAccessToken env (user_clerkUserId (event_user event)) ''oauth_google'' = Inl e"
    and "err_code e \<noteq> JStr ''oauth_token_retrieval_error''"
    and "ae_code a = ''oauth_token_retrieval_error''"
    and "err_errors e = a # as"
  shows "createBooking env bookingData =
     ([FindUnique (bd_eventId bookingData),
       GetUserOauthAccessToken (user_clerkUserId (event_user event)) ''oauth_google''],
      Inr \<lparr> success = False, error = Some ''Failed to access Google Calendar'',
            code = Some (JStr ''GOOGLE_AUTH_ERROR''), requiresReauth = Some False,
            details = None, booking = None, meetLink = None \<rparr>)"
  using createBooking_token_fails [OF assms(1) getGoogleOAuthToken_other_error [OF assms(2,3)]]
  by (simp add: result_def)

text \<open>
  C4. The claim: when token retrieval fails with the provider's token-retrieval error
  (error code \<^verbatim>\<open>oauth_token_retrieval_error\<close>), the result has code
  \<^verbatim>\<open>GOOGLE_AUTH_REQUIRED\<close> and \<^verbatim>\<open>requiresReauth:true\<close>. The code at the run where the
  provider call throws that error as its client builds it (the code
  \<^verbatim>\<open>oauth_token_retrieval_error\<close> in \<^verbatim>\<open>errors[0].code\<close>, \<^verbatim>\<open>api_response_error\<close> in
  \<^verbatim>\<open>error.code\<close>): the result has code \<^verbatim>\<open>GOOGLE_AUTH_ERROR\<close> and
  \<^verbatim>\<open>requiresReauth:false\<close>.
\<close>

theorem C4_token_retrieval_error_run:
  "findUnique env_token_retrieval_error (bd_eventId request1) = Inr (Some event1) \<and>
   getUserOauthAccessToken env_token_retrieval_error (user_clerkUserId (event_user event1))
     ''oauth_google'' =
     Inl \<lparr> err_code = JStr ''api_response_error'', err_message = ''Bad Request'',
           err_errors = [\<lparr> ae_code = ''oauth_token_retrieval_error'',
                           ae_message = ''Token retrieval failed'' \<rparr>] \<rparr> \<and>
   createBooking env_token_retrieval_error request1 =
     ([FindUnique ''E1'', GetUserOauthAccessToken ''user_1'' ''oauth_google''],
      Inr \<lparr> success = False, error = Some ''Failed to access Google Calendar'',
            code = Some (JStr ''GOOGLE_AUTH_ERROR''), requiresReauth = Some False,
            details = None, booking = None, meetLink = None \<rparr>)"
proof -
  have ev: "findUnique env_token_retrieval_error (bd_eventId request1) = Inr (Some event1)"
    by (simp add: env_token_retrieval_error_def request1_ids env_ok_findUnique)
  have thrown: "getUserOauthAccessToken env_token_retrieval_error
      (user_clerkUserId (event_user event1)) ''oauth_google'' = Inl clerk_token_retrieval_error"
    by (simp add: env_token_retrieval_error_def)
  have other: "err_code clerk_token_retrieval_error \<noteq> JStr ''oauth_token_retrieval_error''"
    by (simp add: clerk_token_retrieval_error_def)
  have entry: "err_errors clerk_token_retrieval_error =
      \<lparr> ae_code = ''oauth_token_retrieval_error'', ae_message = ''Token retrieval failed'' \<rparr> # []"
    by (simp add: clerk_token_retrieval_error_def)
  have "ae_code \<lparr> ae_code = ''oauth_token_retrieval_error'',
                   ae_message = ''Token retrieval failed'' \<rparr> = ''oauth_token_retrieval_error''"
    by simp
  from createBooking_retrieval_code_in_errors [OF ev thrown other this entry] ev thrown
  show ?thesis
    by (simp add: request1_ids clerk_token_retrieval_error_def)
qed

text \<open>
  C5. When the event exists and the provider call throws an error whose code is not
  \<^verbatim>\<open>oauth_token_retrieval_error\<close>, \<^verbatim>\<open>createBooking\<close> returns a failure with code
  \<^verbatim>\<open>GOOGLE_AUTH_ERROR\<close> and \<^verbatim>\<open>requiresReauth:false\<close> (and the message of lines 51-55),
  after the lookup and the provider call only.
\<close>

theorem C5_other_provider_error:
  assumes "findUnique env (bd_eventId bookingData) = Inr (Some event)"
    and "getUserOauthAccessToken env (user_clerkUserId (event_user event)) ''oauth_google'' = Inl e"
    and "err_code e \<noteq> JStr ''oauth_token_retrieval_error''"
  shows "createBooking env bookingData =
     ([FindUnique (bd_eventId bookingData),
       GetUserOauthAccessToken (user_clerkUserId (event_user event)) ''oauth_google''],
      Inr \<lparr> success = False, error = Some ''Failed to access Google Calendar'',
            code = Some (JStr ''GOOGLE_AUTH_ERROR''), requiresReauth = Some False,
            details = None, booking = None, meetLink = None \<rparr>)"
  using createBooking_token_fails [OF assms(1) getGoogleOAuthToken_other_error [OF assms(2,3)]]
  by (simp add: result_def)

theorem C5_other_provider_error_witness:
  "findUnique env_provider_down (bd_eventId request1) = Inr (Some event1) \<and>
   getUserOauthAccessToken env_provider_down (user_clerkUserId (event_user event1))
     ''oauth_google'' =
     Inl \<lparr> err_code = JStr ''ECONNRESET'', err_message = ''socket hang up'',
                  err_errors = [] \<rparr> \<and>
   JStr ''ECONNRESET'' \<noteq> JStr ''oauth_token_retrieval_error'' \<and>
   createBooking env_provider_down request1 =
     ([FindUnique ''E1'', GetUserOauthAccessToken ''user_1'' ''oauth_google''],
      Inr \<lparr> success = False, error = Some ''Failed to access Google Calendar'',
            code = Some (JStr ''GOOGLE_AUTH_ERROR''), requiresReauth = Some False,
            details = None, booking = None, meetLink = None \<rparr>)"
proof -
  let ?e = "\<lparr> err_code = JStr ''ECONNRESET'', err_message = ''socket hang up'',
                     err_errors = [] \<rparr>"
  have ev: "findUnique env_provider_down (bd_eventId request1) = Inr (Some event1)"
    by (simp add: env_provider_down_def request1_ids env_ok_findUnique)
  have thrown: "getUserOauthAccessToken env_provider_down
      (user_clerkUserId (event_user event1)) ''oauth_google'' = Inl ?e"
    by (simp add: env_provider_down_def)
  have other: "err_code ?e \<noteq> JStr ''oauth_token_retrieval_error''"
    by simp
  from C5_other_provider_error [OF ev thrown other] ev thrown other show ?thesis
    by (simp add: request1_ids)
qed

text \<open>
  C6. In a run where the lookup finds the event, the token is obtained, the calendar call
  answers with \<open>response\<close> and the insert of the data \<open>d\<close> answers with the row \<open>b\<close>:
  the four calls are made in this order, the \<^verbatim>\<open>meetLink\<close> and \<^verbatim>\<open>googleEventId\<close> given
  to the insert are the \<^verbatim>\<open>hangoutLink\<close> and \<^verbatim>\<open>id\<close> of \<open>response\<close>, and the result is
  \<^verbatim>\<open>{success:true, booking, meetLink}\<close> with that row and that link.
\<close>

theorem C6_full_success:
  assumes "findUnique env (bd_eventId bookingData) = Inr (Some event)"
    and "snd (getGoogleOAuthToken env (user_clerkUserId (event_user event))) = Inr token"
    and "events_insert env (requestBody env (calendarParams bookingData event token)) = Inr response"
    and "BookingCreate d \<in> set (fst (createBooking env bookingData))"
    and "booking_create env d = Inr b"
  shows "fst (createBooking env bookingData) =
       [FindUnique (bd_eventId bookingData),
        GetUserOauthAccessToken (user_clerkUserId (event_user event)) ''oauth_google'',
        EventsInsert (requestBody env (calendarParams bookingData event token)),
        BookingCreate d] \<and>
     bc_meetLink d = resp_hangoutLink response \<and>
     bc_googleEventId d = resp_id response \<and>
     snd (createBooking env bookingData) =
       Inr \<lparr> success = True, error = None, code = None, requiresReauth = None,
             details = None, booking = Some b, meetLink = Some (resp_hangoutLink response) \<rparr>"
proof -
  let ?ge = "\<lparr> ge_meetLink = resp_hangoutLink response, ge_googleEventId = resp_id response \<rparr>"
  have cal: "snd (createGoogleCalendarEvent env (calendarParams bookingData event token)) = Inr ?ge"
    using assms(3) by (simp add: createGoogleCalendarEvent_Inr)
  have d: "d = bookingCreateData bookingData event ?ge"
  proof (cases "booking_create env (bookingCreateData bookingData event ?ge)")
    case (Inl e)
    from createBooking_insert_throws [OF assms(1,2) cal Inl] assms(4) show ?thesis
      by simp
  next
    case (Inr b')
    from createBooking_all_succeed [OF assms(1,2) cal Inr] assms(4) show ?thesis
      by simp
  qed
  with assms(5) have "booking_create env (bookingCreateData bookingData event ?ge) = Inr b"
    by simp
  from createBooking_all_succeed [OF assms(1,2) cal this] d show ?thesis
    by (simp add: result_def bookingCreateData_def)
qed

theorem C6_full_success_witness:
  "findUnique env_ok (bd_eventId request1) = Inr (Some event1) \<and>
   snd (getGoogleOAuthToken env_ok (user_clerkUserId (event_user event1))) =
     Inr (JStr ''ya29.token'') \<and>
   events_insert env_ok (requestBody env_ok (calendarParams request1 event1 (JStr ''ya29.token''))) =
     Inr \<lparr> resp_hangoutLink = JStr ''https://meet/x'', resp_id = JStr ''G1'' \<rparr> \<and>
   BookingCreate (bookingCreateData request1 event1
       \<lparr> ge_meetLink = JStr ''https://meet/x'', ge_googleEventId = JStr ''G1'' \<rparr>)
     \<in> set (fst (createBooking env_ok request1)) \<and>
   bc_meetLink (bookingCreateData request1 event1
       \<lparr> ge_meetLink = JStr ''https://meet/x'', ge_googleEventId = JStr ''G1'' \<rparr>) =
     JStr ''https://meet/x'' \<and>
   bc_googleEventId (bookingCreateData request1 event1
       \<lparr> ge_meetLink = JStr ''https://meet/x'', ge_googleEventId = JStr ''G1'' \<rparr>) =
     JStr ''G1'' \<and>
   snd (createBooking env_ok request1) =
     Inr \<lparr> success = True, error = None, code = None, requiresReauth = None, details = None,
           booking = Some (''B1'', bookingCreateData request1 event1
             \<lparr> ge_meetLink = JStr ''https://meet/x'', ge_googleEventId = JStr ''G1'' \<rparr>),
           meetLink = Some (JStr ''https://meet/x'') \<rparr>"
proof -
  let ?d = "bookingCreateData request1 event1
      \<lparr> ge_meetLink = JStr ''https://meet/x'', ge_googleEventId = JStr ''G1'' \<rparr>"
  have ev: "findUnique env_ok (bd_eventId request1) = Inr (Some event1)"
    by (simp add: request1_ids env_ok_findUnique)
  have called: "BookingCreate ?d \<in> set (fst (createBooking env_ok request1))"
    by (simp add: env_ok_run)
  from C6_full_success [OF ev env_ok_token env_ok_events_insert called env_ok_booking_create]
    ev env_ok_token env_ok_events_insert called
  show ?thesis
    by simp
qed

text \<open>
  C7. Whenever a run calls the calendar API, the event was found, the \<^verbatim>\<open>summary\<close> of the
  request is the requester's name, \<^verbatim>\<open>" - "\<close> and the event's title, and its attendees
  are the requester's email followed by the owner's email.
\<close>

theorem C7_calendar_request:
  assumes "EventsInsert req \<in> set (fst (createBooking env bookingData))"
  shows "\<exists>event. findUnique env (bd_eventId bookingData) = Inr (Some event) \<and>
           cr_summary req = bd_name bookingData @ '' - '' @ event_title event \<and>
           cr_attendees req = [bd_email bookingData, user_email (event_user event)]"
proof -
  from assms obtain event token
    where "findUnique env (bd_eventId bookingData) = Inr (Some event)"
      and "req = requestBody env (calendarParams bookingData event token)"
    by (rule EventsInsert_called)
  then show ?thesis
    by (simp add: requestBody_def calendarParams_def)
qed

theorem C7_calendar_request_witness:
  "EventsInsert (requestBody env_ok (calendarParams request1 event1 (JStr ''ya29.token'')))
     \<in> set (fst (createBooking env_ok request1)) \<and>
   cr_summary (requestBody env_ok (calendarParams request1 event1 (JStr ''ya29.token''))) =
     ''Ada - Intro call'' \<and>
   cr_attendees (requestBody env_ok (calendarParams request1 event1 (JStr ''ya29.token''))) =
     [''ada@example.com'', ''owner@example.com'']"
proof -
  let ?req = "requestBody env_ok (calendarParams request1 event1 (JStr ''ya29.token''))"
  have called: "EventsInsert ?req \<in> set (fst (createBooking env_ok request1))"
    by (simp add: env_ok_run)
  from C7_calendar_request [OF called] obtain event
    where "findUnique env_ok (bd_eventId request1) = Inr (Some event)"
      and "cr_summary ?req = bd_name request1 @ '' - '' @ event_title event"
      and "cr_attendees ?req = [bd_email request1, user_email (event_user event)]"
    by blast
  moreover from this(1) have "event = event1"
    by (simp add: request1_ids env_ok_findUnique)
  ultimately have "cr_summary ?req = ''Ada - Intro call''"
    and "cr_attendees ?req = [''ada@example.com'', ''owner@example.com'']"
    by (simp_all add: request1_def event1_def owner1_def)
  with called show ?thesis
    by simp
qed

text \<open>
  C8. \<^verbatim>\<open>createBooking\<close> always returns an object and never throws: whatever the services
  do, its outcome is a returned value (\<open>Inr\<close>). When the body of its \<^verbatim>\<open>try\<close> block throws
  an exception (one that no inner handler turned into a result), the outer handler logs
  it and returns \<^verbatim>\<open>{success:false, error:"Failed to create booking", details:<message>}\<close>.
\<close>

theorem C8_never_throws:
  "(\<exists>r. snd (createBooking env bookingData) = Inr r) \<and>
   (\<forall>cs e. createBooking_try env bookingData = (cs, Inl e) \<longrightarrow>
      createBooking env bookingData =
        (cs @ [ConsoleError e],
         Inr \<lparr> success = False, error = Some ''Failed to create booking'', code = None,
               requiresReauth = None, details = Some (exn_message e), booking = None,
               meetLink = None \<rparr>))"
proof (cases "createBooking_try env bookingData")
  case (Pair cs outcome)
  then show ?thesis
    by (cases outcome) (simp_all add: createBooking_def result_def)
qed

theorem C8_never_throws_witness:
  "createBooking_try env_insert_fails request1 =
     ([FindUnique ''E1'', GetUserOauthAccessToken ''user_1'' ''oauth_google'',
       EventsInsert (requestBody env_insert_fails
                       (calendarParams request1 event1 (JStr ''ya29.token''))),
       BookingCreate (bookingCreateData request1 event1
         \<lparr> ge_meetLink = JStr ''https://meet/x'', ge_googleEventId = JStr ''G1'' \<rparr>)],
      Inl (Thrown \<lparr> err_code = JStr ''P2002'', err_message = ''Unique constraint failed'',
                           err_errors = [] \<rparr>)) \<and>
   createBooking env_insert_fails request1 =
     ([FindUnique ''E1'', GetUserOauthAccessToken ''user_1'' ''oauth_google'',
       EventsInsert (requestBody env_insert_fails
                       (calendarParams request1 event1 (JStr ''ya29.token''))),
       BookingCreate (bookingCreateData request1 event1
         \<lparr> ge_meetLink = JStr ''https://meet/x'', ge_googleEventId = JStr ''G1'' \<rparr>),
       ConsoleError
         (Thrown \<lparr> err_code = JStr ''P2002'', err_message = ''Unique constraint failed'',
                          err_errors = [] \<rparr>)],
      Inr \<lparr> success = False, error = Some ''Failed to create booking'', code = None,
            requiresReauth = None, details = Some ''Unique constraint failed'', booking = None,
            meetLink = None \<rparr>)"
  using C8_never_throws [of env_insert_fails request1] env_insert_fails_try
  by simp

text \<open>
  C9. If a run calls the insert, then its calls begin with the lookup, the provider call,
  a calendar call that the API answered with a value, and then this insert; no other
  insert follows. An insert is never made after a failed or skipped calendar call.
\<close>

theorem C9_insert_after_calendar:
  assumes "BookingCreate d \<in> set (fst (createBooking env bookingData))"
  shows "\<exists>i u p req response rest.
           fst (createBooking env bookingData) =
             [FindUnique i, GetUserOauthAccessToken u p, EventsInsert req, BookingCreate d] @ rest \<and>
           events_insert env req = Inr response \<and>
           (\<forall>d'. BookingCreate d' \<notin> set rest)"
proof -
  from assms obtain event token ge
    where ev: "findUnique env (bd_eventId bookingData) = Inr (Some event)"
      and tok: "snd (getGoogleOAuthToken env (user_clerkUserId (event_user event))) = Inr token"
      and cal: "snd (createGoogleCalendarEvent env (calendarParams bookingData event token)) = Inr ge"
      and d: "d = bookingCreateData bookingData event ge"
    by (rule BookingCreate_called)
  from cal obtain response
    where resp: "events_insert env (requestBody env (calendarParams bookingData event token)) =
                   Inr response"
    by (auto simp add: createGoogleCalendarEvent_Inr)
  show ?thesis
  proof (cases "booking_create env (bookingCreateData bookingData event ge)")
    case (Inl e)
    from createBooking_insert_throws [OF ev tok cal Inl] d resp show ?thesis
      by simp
  next
    case (Inr b)
    from createBooking_all_succeed [OF ev tok cal Inr] d resp show ?thesis
      by simp
  qed
qed

theorem C9_insert_after_calendar_witness:
  "BookingCreate (bookingCreateData request1 event1
       \<lparr> ge_meetLink = JStr ''https://meet/x'', ge_googleEventId = JStr ''G1'' \<rparr>)
     \<in> set (fst (createBooking env_ok request1)) \<and>
   (\<exists>i u p req response rest.
      fst (createBooking env_ok request1) =
        [FindUnique i, GetUserOauthAccessToken u p, EventsInsert req,
         BookingCreate (bookingCreateData request1 event1
           \<lparr> ge_meetLink = JStr ''https://meet/x'', ge_googleEventId = JStr ''G1'' \<rparr>)] @ rest \<and>
      events_insert env_ok req = Inr response \<and>
      (\<forall>d'. BookingCreate d' \<notin> set rest))"
proof -
  have called: "BookingCreate (bookingCreateData request1 event1
       \<lparr> ge_meetLink = JStr ''https://meet/x'', ge_googleEventId = JStr ''G1'' \<rparr>)
     \<in> set (fst (createBooking env_ok request1))"
    by (simp add: env_ok_run)
  from C9_insert_after_calendar [OF called] called show ?thesis
    by blast
qed

text \<open>
  C10. The outcome of \<^verbatim>\<open>createBooking\<close> is always a returned object, and its \<^verbatim>\<open>success\<close>
  is \<^verbatim>\<open>true\<close> exactly when the four services answered as follows: the lookup with an
  event, the provider with a \<^verbatim>\<open>data\<close> array whose first entry has a truthy token, the
  calendar API with a value for the request built from that event and token, and the
  insert with a row for the data built from that answer. When any service throws, or
  answers otherwise, \<^verbatim>\<open>success\<close> is \<^verbatim>\<open>false\<close>.
\<close>

theorem C10_success_iff:
  "\<exists>r. snd (createBooking env bookingData) = Inr r \<and>
     (success r \<longleftrightarrow>
        (\<exists>event resp t ts response b.
           findUnique env (bd_eventId bookingData) = Inr (Some event) \<and>
           getUserOauthAccessToken env (user_clerkUserId (event_user event)) ''oauth_google'' =
             Inr resp \<and>
           or_data resp = t # ts \<and> truthy (oat_token t) \<and>
           events_insert env (requestBody env (calendarParams bookingData event (oat_token t))) =
             Inr response \<and>
           booking_create env
               (bookingCreateData bookingData event
                  \<lparr> ge_meetLink = resp_hangoutLink response,
                    ge_googleEventId = resp_id response \<rparr>) =
             Inr b))"
  (is "\<exists>r. _ = Inr r \<and> (success r \<longleftrightarrow> ?all_answered)")
proof (cases env bookingData rule: createBooking_cases)
  case (lookup_throws e)
  from createBooking_lookup_throws [OF this] lookup_throws show ?thesis
    by (simp add: result_def)
next
  case not_found
  from createBooking_not_found [OF this] not_found show ?thesis
    by (simp add: result_def)
next
  case (token_fails event oe)
  from token_fails have "\<not> ?all_answered"
    by (auto dest: getGoogleOAuthToken_Inl)
  with createBooking_token_fails [OF token_fails] show ?thesis
    by (simp add: result_def)
next
  case (calendar_oauth event token ce)
  from calendar_oauth(1-3) have "\<not> ?all_answered"
    by (auto simp add: getGoogleOAuthToken_Inr createGoogleCalendarEvent_answered)
  with createBooking_calendar_oauth [OF calendar_oauth] show ?thesis
    by (simp add: result_def)
next
  case (calendar_other event token ce)
  from calendar_other(1-3) have "\<not> ?all_answered"
    by (auto simp add: getGoogleOAuthToken_Inr createGoogleCalendarEvent_answered)
  with createBooking_calendar_other [OF calendar_other] show ?thesis
    by (simp add: result_def)
next
  case (insert_throws event token ge e)
  from insert_throws have "\<not> ?all_answered"
    by (auto simp add: getGoogleOAuthToken_Inr createGoogleCalendarEvent_Inr)
  with createBooking_insert_throws [OF insert_throws] show ?thesis
    by (simp add: result_def)
next
  case (all_succeed event token ge b)
  from all_succeed have "?all_answered"
    by (auto simp add: getGoogleOAuthToken_Inr createGoogleCalendarEvent_Inr)
  with createBooking_all_succeed [OF all_succeed] show ?thesis
    by (simp add: result_def)
qed

theorem C10_success_iff_witness:
  "snd (createBooking env_ok request1) =
     Inr \<lparr> success = True, error = None, code = None, requiresReauth = None, details = None,
           booking = Some (''B1'', bookingCreateData request1 event1
             \<lparr> ge_meetLink = JStr ''https://meet/x'', ge_googleEventId = JStr ''G1'' \<rparr>),
           meetLink = Some (JStr ''https://meet/x'') \<rparr> \<and>
   (\<exists>event resp t ts response b.
      findUnique env_ok (bd_eventId request1) = Inr (Some event) \<and>
      getUserOauthAccessToken env_ok (user_clerkUserId (event_user event)) ''oauth_google'' =
        Inr resp \<and>
      or_data resp = t # ts \<and> truthy (oat_token t) \<and>
      events_insert env_ok (requestBody env_ok (calendarParams request1 event (oat_token t))) =
        Inr response \<and>
      booking_create env_ok
          (bookingCreateData request1 event
             \<lparr> ge_meetLink = resp_hangoutLink response,
               ge_googleEventId = resp_id response \<rparr>) =
        Inr b) \<and>
   getUserOauthAccessToken env_provider_down (user_clerkUserId (event_user event1))
       ''oauth_google'' =
     Inl \<lparr> err_code = JStr ''ECONNRESET'', err_message = ''socket hang up'',
           err_errors = [] \<rparr> \<and>
   (\<exists>r. snd (createBooking env_provider_down request1) = Inr r \<and> success r = False)"
proof -
  have down: "getUserOauthAccessToken env_provider_down u p =
      Inl \<lparr> err_code = JStr ''ECONNRESET'', err_message = ''socket hang up'',
            err_errors = [] \<rparr>" for u p
    by (simp add: env_provider_down_def)
  from C10_success_iff [of env_ok request1]
  have ok: "\<exists>event resp t ts response b.
      findUnique env_ok (bd_eventId request1) = Inr (Some event) \<and>
      getUserOauthAccessToken env_ok (user_clerkUserId (event_user event)) ''oauth_google'' =
        Inr resp \<and>
      or_data resp = t # ts \<and> truthy (oat_token t) \<and>
      events_insert env_ok (requestBody env_ok (calendarParams request1 event (oat_token t))) =
        Inr response \<and>
      booking_create env_ok
          (bookingCreateData request1 event
             \<lparr> ge_meetLink = resp_hangoutLink response,
               ge_googleEventId = resp_id response \<rparr>) =
        Inr b"
    by (simp add: env_ok_run)
  from C10_success_iff [of env_provider_down request1]
  have "\<exists>r. snd (createBooking env_provider_down request1) = Inr r \<and> success r = False"
    by (auto simp add: down)
  with ok down show ?thesis
    by (simp add: env_ok_run)
qed

end
